theory Spec2Isabelle
  imports Main
begin

section \<open>The authentication service of NexaFx-backend\<close>

text \<open>
  A shallow embedding of \<^verbatim>\<open>src/auth/services/auth.service.ts\<close> (class
  \<^verbatim>\<open>AuthService\<close>). Every method becomes a function that takes the tables it reads
  and returns its result together with the tables it writes. An exception is a value of
  type \<open>exn\<close>, a method that can throw returns \<open>exn + 'a\<close> (\<open>Inl\<close> the exception).
  What the class gets from outside (the clock, random numbers, signature recovery,
  the password hasher, the mailer) is a parameter of the function that uses it.
\<close>

subsection \<open>Exceptions\<close>

text \<open>
  The three NestJS exception classes the file throws are subclasses of
  \<^verbatim>\<open>HttpException\<close>; the constructor argument is the message. \<open>TokenError\<close> is what
  \<^verbatim>\<open>jwtService.verify\<close> throws, \<open>Error\<close> any other JavaScript error (for example
  one thrown by the mailer). Neither of the two is an \<^verbatim>\<open>HttpException\<close>.
\<close>

datatype token_error = Expired | Malformed | BadSignature

datatype exn =
    ConflictException string
  | UnauthorizedException string
  | InternalServerErrorException string
  | TokenError token_error
  | Error string

fun instanceof_HttpException :: "exn \<Rightarrow> bool" where
  "instanceof_HttpException (ConflictException m) = True"
| "instanceof_HttpException (UnauthorizedException m) = True"
| "instanceof_HttpException (InternalServerErrorException m) = True"
| "instanceof_HttpException (TokenError e) = False"
| "instanceof_HttpException (Error m) = False"

text \<open>
  \<^verbatim>\<open>HttpException.getStatus()\<close>: the HTTP status of the class, which is the kind of
  failure the client sees: 409 for \<^verbatim>\<open>ConflictException\<close>, 401 for
  \<^verbatim>\<open>UnauthorizedException\<close>, 500 for \<^verbatim>\<open>InternalServerErrorException\<close>. The
  status 404 belongs to \<^verbatim>\<open>NotFoundException\<close>, which the file neither imports
  nor throws. An error that is not an \<^verbatim>\<open>HttpException\<close> has no status.
\<close>

fun getStatus :: "exn \<Rightarrow> nat option" where
  "getStatus (ConflictException m) = Some 409"
| "getStatus (UnauthorizedException m) = Some 401"
| "getStatus (InternalServerErrorException m) = Some 500"
| "getStatus (TokenError e) = None"
| "getStatus (Error m) = None"

subsection \<open>JavaScript primitives: \<^verbatim>\<open>String(n)\<close> and \<^verbatim>\<open>toLowerCase\<close>\<close>

definition digit :: "nat \<Rightarrow> char" where
  "digit d = char_of (48 + d)"

fun String_nat :: "nat \<Rightarrow> string" where
  "String_nat n = (if n < 10 then [digit n] else String_nat (n div 10) @ [digit (n mod 10)])"

text \<open>\<^verbatim>\<open>String(n)\<close> and \<^verbatim>\<open>n.toString()\<close> for an integer-valued number: decimal,
  no leading zero, a minus sign for a negative number.\<close>

definition String_int :: "int \<Rightarrow> string" where
  "String_int i = (if i < 0 then CHR ''-'' # String_nat (nat (- i)) else String_nat (nat i))"

text \<open>The inverse reading of a decimal string, used to state which number a code shows.\<close>

definition digit_val :: "char \<Rightarrow> nat" where
  "digit_val c = of_char c - 48"

definition parse_nat :: "string \<Rightarrow> nat" where
  "parse_nat s = foldl (\<lambda>a c. 10 * a + digit_val c) 0 s"

definition is_digit :: "char \<Rightarrow> bool" where
  "is_digit c = (48 \<le> (of_char c :: nat) \<and> (of_char c :: nat) \<le> 57)"

text \<open>\<^verbatim>\<open>toLowerCase\<close> on the ASCII letters (a wallet address is \<^verbatim>\<open>0x\<close> and hex
  digits).\<close>

definition lower_char :: "char \<Rightarrow> char" where
  "lower_char c =
     (if 65 \<le> (of_char c :: nat) \<and> (of_char c :: nat) \<le> 90 then char_of (of_char c + 32 :: nat) else c)"

definition toLowerCase :: "string \<Rightarrow> string" where
  "toLowerCase s = map lower_char s"

subsection \<open>Entities and repositories\<close>

text \<open>
  The entity classes \<^verbatim>\<open>User\<close> and \<^verbatim>\<open>Otp\<close> are imported by the file; the records
  have the fields the file reads and writes. A repository is the list of its rows.
  \<^verbatim>\<open>expiresAt\<close> is a \<^verbatim>\<open>Date\<close>, kept as its \<^verbatim>\<open>getTime()\<close> in milliseconds.
\<close>

record User =
  user_id :: string
  user_email :: string
  user_password :: string
  walletAddress :: "string option"
  walletNonce :: string

record Otp =
  otp_email :: string
  otp_code :: string
  expiresAt :: int

text \<open>\<^verbatim>\<open>otpRepo.findOneBy({ email, code })\<close>: the first row with both fields equal,
  or \<^verbatim>\<open>null\<close>.\<close>

definition otpRepo_findOneBy :: "Otp list \<Rightarrow> string \<Rightarrow> string \<Rightarrow> Otp option" where
  "otpRepo_findOneBy otps email code =
     find (\<lambda>r. otp_email r = email \<and> otp_code r = code) otps"

text \<open>\<^verbatim>\<open>otpRepo.delete({ email, code })\<close>: removes every row that meets the criteria.\<close>

definition otpRepo_delete :: "Otp list \<Rightarrow> string \<Rightarrow> string \<Rightarrow> Otp list" where
  "otpRepo_delete otps email code =
     filter (\<lambda>r. \<not> (otp_email r = email \<and> otp_code r = code)) otps"

text \<open>\<^verbatim>\<open>otpRepo.save({ email, code, expiresAt })\<close>: the object has no primary key, so
  a row is inserted; rows already there for the email stay.\<close>

definition otpRepo_save :: "Otp list \<Rightarrow> Otp \<Rightarrow> Otp list" where
  "otpRepo_save otps r = otps @ [r]"

text \<open>\<^verbatim>\<open>userRepo.findOne({ where: { id } })\<close>.\<close>

definition userRepo_findOne :: "User list \<Rightarrow> string \<Rightarrow> User option" where
  "userRepo_findOne users i = find (\<lambda>u. user_id u = i) users"

text \<open>\<^verbatim>\<open>userRepo.save(user)\<close> for an entity that was loaded from the table: the row
  with the entity's primary key is replaced (inserted when there is none).\<close>

definition userRepo_save :: "User list \<Rightarrow> User \<Rightarrow> User list" where
  "userRepo_save users u =
     (if userRepo_findOne users (user_id u) = None then users @ [u]
      else map (\<lambda>x. if user_id x = user_id u then u else x) users)"

text \<open>Modelled from the spec: \<^verbatim>\<open>UserService.findOne\<close> (file
  \<^verbatim>\<open>src/user/providers/user.service\<close>, not part of the sources at hand). The spec
  gives it as \<^verbatim>\<open>IdentityStore.findByEmail(email) -> Identity?\<close>.\<close>

definition usersService_findOne :: "User list \<Rightarrow> string \<Rightarrow> User option" where
  "usersService_findOne users email = find (\<lambda>u. user_email u = email) users"

subsection \<open>One-time passcodes\<close>

text \<open>
  \<^verbatim>\<open>crypto.randomInt(min, max)\<close> returns an integer \<open>n\<close> with \<open>min \<le> n < max\<close>: the
  lower bound is inclusive, the upper bound exclusive. The random draw is the
  parameter \<open>x\<close>; the result is \<open>min\<close> plus the residue of the draw in the range
  \<open>max - min\<close>, which is how Node computes it.
\<close>

definition randomInt :: "int \<Rightarrow> int \<Rightarrow> nat \<Rightarrow> int" where
  "randomInt lo hi x = lo + int x mod (hi - lo)"

definition generateOtp :: "nat \<Rightarrow> string" where
  "generateOtp x = String_int (randomInt 100000 999999 x)"

text \<open>
  \<^verbatim>\<open>verifyOtp(email, code)\<close> at time \<open>now\<close> (\<^verbatim>\<open>Date.now()\<close>). The result is the
  boolean and the table afterwards. The method's \<^verbatim>\<open>catch\<close> handles a failing
  repository call only; the table operations here are total, so no branch reaches it.
\<close>

definition verifyOtp :: "Otp list \<Rightarrow> int \<Rightarrow> string \<Rightarrow> string \<Rightarrow> bool \<times> Otp list" where
  "verifyOtp otps now email code =
     (case otpRepo_findOneBy otps email code of
        None \<Rightarrow> (False, otps)
      | Some record \<Rightarrow>
          (let isExpired = expiresAt record < now in
           if isExpired then (False, otpRepo_delete otps email code)
           else (True, otpRepo_delete otps email code)))"

text \<open>
  \<^verbatim>\<open>reuestOtp(email)\<close>. \<open>x\<close> is the random draw, \<open>now\<close> is \<^verbatim>\<open>Date.now()\<close>,
  \<open>sendOtpEmail\<close> is the mailer (\<^verbatim>\<open>EmailService\<close>, imported by the file): it
  returns the exception it throws, or \<open>None\<close>. \<open>reuestOtp_try\<close> is the body of the
  \<^verbatim>\<open>try\<close> block, \<open>reuestOtp\<close> adds the \<^verbatim>\<open>catch\<close>. The table returned is the OTP
  table afterwards: a row saved before the mailer fails stays saved.
\<close>

definition reuestOtp_try ::
  "(string \<Rightarrow> string \<Rightarrow> exn option) \<Rightarrow> nat \<Rightarrow> int \<Rightarrow> User list \<Rightarrow> Otp list \<Rightarrow> string
     \<Rightarrow> (exn + unit) \<times> Otp list" where
  "reuestOtp_try sendOtpEmail x now users otps email =
     (case usersService_findOne users email of
        None \<Rightarrow> (Inl (ConflictException ''invalid user does not exist''), otps)
      | Some user \<Rightarrow>
          (let otp = generateOtp x;
               expires = now + 5 * 60 * 1000;
               otps' = otpRepo_save otps \<lparr>otp_email = email, otp_code = otp, expiresAt = expires\<rparr>
           in case sendOtpEmail email otp of
                Some e \<Rightarrow> (Inl e, otps')
              | None \<Rightarrow> (Inr (), otps')))"

definition reuestOtp ::
  "(string \<Rightarrow> string \<Rightarrow> exn option) \<Rightarrow> nat \<Rightarrow> int \<Rightarrow> User list \<Rightarrow> Otp list \<Rightarrow> string
     \<Rightarrow> (exn + unit) \<times> Otp list" where
  "reuestOtp sendOtpEmail x now users otps email =
     (case reuestOtp_try sendOtpEmail x now users otps email of
        (Inl error, otps') \<Rightarrow>
          (if instanceof_HttpException error then (Inl error, otps')
           else (Inl (InternalServerErrorException ''Failed to generate and send OTP''), otps'))
      | (Inr u, otps') \<Rightarrow> (Inr u, otps'))"

subsection \<open>Credentials\<close>

text \<open>
  \<^verbatim>\<open>validateUser(email, password)\<close>. \<open>compare\<close> is
  \<^verbatim>\<open>BcryptPasswordHashingService.compare(plaintext, hash)\<close>, imported by the file;
  the spec gives it as \<^verbatim>\<open>PasswordHasher.compare(plaintext, hash) -> bool\<close>.
\<close>

definition validateUser ::
  "(string \<Rightarrow> string \<Rightarrow> bool) \<Rightarrow> User list \<Rightarrow> string \<Rightarrow> string \<Rightarrow> exn + User" where
  "validateUser compare users email password =
     (case usersService_findOne users email of
        None \<Rightarrow> Inl (UnauthorizedException ''Invalid credentials'')
      | Some user \<Rightarrow>
          if compare password (user_password user) then Inr user
          else Inl (UnauthorizedException ''Invalid credentials''))"

subsection \<open>Linking a wallet\<close>

text \<open>
  \<^verbatim>\<open>linkWallet(userId, walletAddress, signature)\<close>. \<open>verifyMessage\<close> is
  \<^verbatim>\<open>ethers.utils.verifyMessage(message, signature)\<close>: the recovered address, or
  \<open>None\<close> when it throws. \<open>uuid\<close> is the value \<^verbatim>\<open>crypto.randomUUID()\<close> returns in
  this call. The result comes with the user table afterwards.
\<close>

definition challenge :: "string \<Rightarrow> string" where
  "challenge nonce = ''Link wallet with nonce: '' @ nonce"

definition linkWallet ::
  "(string \<Rightarrow> string \<Rightarrow> string option) \<Rightarrow> string \<Rightarrow> User list \<Rightarrow> int \<Rightarrow> string \<Rightarrow> string
     \<Rightarrow> (exn + User) \<times> User list" where
  "linkWallet verifyMessage uuid users userId address signature =
     (case userRepo_findOne users (String_int userId) of
        None \<Rightarrow> (Inl (UnauthorizedException ''User not found''), users)
      | Some user \<Rightarrow>
          (let message = challenge (walletNonce user) in
           case verifyMessage message signature of
             None \<Rightarrow> (Inl (UnauthorizedException ''Invalid signature''), users)
           | Some recoveredAddress \<Rightarrow>
               if toLowerCase recoveredAddress \<noteq> toLowerCase address
               then (Inl (UnauthorizedException ''Signature verification failed''), users)
               else (let user' = user\<lparr>walletAddress := Some address, walletNonce := uuid\<rparr>
                     in (Inr user', userRepo_save users user'))))"

subsection \<open>Tokens\<close>

text \<open>
  Modelled from the spec: \<^verbatim>\<open>JwtService\<close> of \<^verbatim>\<open>@nestjs/jwt\<close> (\<^verbatim>\<open>sign\<close> and
  \<^verbatim>\<open>verify\<close>), which the file imports and no source file here defines. The spec's
  \<^verbatim>\<open>TokenIssuer\<close>: a token carries the claims \<open>{sub, email, issuedAt, expiresAt}\<close> (the
  fields \<open>claim_sub\<close>, \<open>claim_email\<close>, \<open>iat\<close>, \<open>exp\<close>),
  signed with the configured secret; \<^verbatim>\<open>verify\<close> is "signature and expiry check
  only" and fails with \<open>Expired\<close>, \<open>Malformed\<close> or \<open>BadSignature\<close>; it "fails with
  \<open>Expired\<close> once clock exceeds TTL". A signed token is the pair of the signing secret
  and the claims; any other string is \<open>Garbage\<close>. Token times are in seconds, and
  \<^verbatim>\<open>expiresIn\<close> (\<^verbatim>\<open>'15m'\<close>, \<^verbatim>\<open>'7d'\<close>) is a \<open>timespan\<close>.
\<close>

record payload =
  claim_email :: string
  claim_sub :: string

record claims = payload +
  iat :: nat
  exp :: nat

datatype token = Signed string claims | Garbage string

datatype timespan = Minutes nat | Hours nat | Days nat

fun seconds :: "timespan \<Rightarrow> nat" where
  "seconds (Minutes n) = n * 60"
| "seconds (Hours n) = n * 60 * 60"
| "seconds (Days n) = n * 24 * 60 * 60"

definition sign :: "string \<Rightarrow> nat \<Rightarrow> payload \<Rightarrow> timespan \<Rightarrow> token" where
  "sign secret now p expiresIn =
     Signed secret \<lparr>claim_email = claim_email p, claim_sub = claim_sub p,
                     iat = now, exp = now + seconds expiresIn\<rparr>"

definition verify :: "string \<Rightarrow> nat \<Rightarrow> token \<Rightarrow> token_error + claims" where
  "verify secret now t =
     (case t of
        Garbage s \<Rightarrow> Inl Malformed
      | Signed k c \<Rightarrow>
          if k \<noteq> secret then Inl BadSignature
          else if exp c < now then Inl Expired
          else Inr c)"

text \<open>The object \<^verbatim>\<open>{ accessToken, refreshToken }\<close> that \<^verbatim>\<open>login\<close> returns; its
  second field is \<open>refreshToken_of\<close> here, the name \<open>refreshToken\<close> being the
  method's.\<close>

record session =
  accessToken :: token
  refreshToken_of :: token

text \<open>\<^verbatim>\<open>login(user)\<close> at time \<open>now\<close>, with the service's signing secret.\<close>

definition login :: "string \<Rightarrow> nat \<Rightarrow> User \<Rightarrow> session" where
  "login secret now user =
     (let p = \<lparr>claim_email = user_email user, claim_sub = user_id user\<rparr> in
      \<lparr>accessToken = sign secret now p (Minutes 15),
       refreshToken_of = sign secret now p (Days 7)\<rparr>)"

text \<open>\<^verbatim>\<open>refreshToken(token)\<close>: \<open>refreshToken_try\<close> is the body of the \<^verbatim>\<open>try\<close> block,
  \<open>refreshToken\<close> adds the \<^verbatim>\<open>catch\<close>, which replaces every exception.\<close>

definition refreshToken_try :: "string \<Rightarrow> nat \<Rightarrow> User list \<Rightarrow> token \<Rightarrow> exn + session" where
  "refreshToken_try secret now users t =
     (case verify secret now t of
        Inl e \<Rightarrow> Inl (TokenError e)
      | Inr decoded \<Rightarrow>
          (case usersService_findOne users (claim_email decoded) of
             None \<Rightarrow> Inl (UnauthorizedException ''Invalid refresh token'')
           | Some user \<Rightarrow> Inr (login secret now user)))"

definition refreshToken :: "string \<Rightarrow> nat \<Rightarrow> User list \<Rightarrow> token \<Rightarrow> exn + session" where
  "refreshToken secret now users t =
     (case refreshToken_try secret now users t of
        Inl error \<Rightarrow> Inl (UnauthorizedException ''Invalid or expired refresh token'')
      | Inr s \<Rightarrow> Inr s)"

section \<open>Properties\<close>

subsection \<open>Decimal strings\<close>

declare String_nat.simps [simp del]

lemma String_nat_length:
  "10 ^ k \<le> n \<Longrightarrow> n < 10 ^ Suc k \<Longrightarrow> length (String_nat n) = Suc k"
proof (induction k arbitrary: n)
  case 0
  then show ?case by (subst String_nat.simps) simp
next
  case (Suc k)
  have "(10::nat) \<le> 10 ^ Suc k" by simp
  then have big: "10 \<le> n" using Suc.prems(1) by (rule le_trans)
  have lo: "10 ^ k \<le> n div 10" using Suc.prems(1) by (simp add: less_eq_div_iff_mult_less_eq)
  have hi: "n div 10 < 10 ^ Suc k" using Suc.prems(2) by (simp add: less_mult_imp_div_less mult.commute)
  show ?case using big Suc.IH [OF lo hi] by (subst String_nat.simps) simp
qed

lemma digit_val_digit: "d < 10 \<Longrightarrow> digit_val (digit d) = d"
  by (simp add: digit_val_def digit_def)

lemma parse_nat_String_nat: "parse_nat (String_nat n) = n"
proof (induction n rule: String_nat.induct)
  case (1 n)
  show ?case
  proof (cases "n < 10")
    case True
    then show ?thesis by (subst String_nat.simps) (simp add: parse_nat_def digit_val_digit)
  next
    case False
    then have "parse_nat (String_nat (n div 10)) = n div 10" using 1 by simp
    then show ?thesis using False
      by (subst String_nat.simps) (simp add: parse_nat_def digit_val_digit)
  qed
qed

lemma is_digit_digit: "d < 10 \<Longrightarrow> is_digit (digit d)"
  by (simp add: is_digit_def digit_def)

lemma String_nat_digits: "list_all is_digit (String_nat n)"
proof (induction n rule: String_nat.induct)
  case (1 n)
  show ?case
  proof (cases "n < 10")
    case True
    then show ?thesis by (subst String_nat.simps) (simp add: is_digit_digit)
  next
    case False
    then show ?thesis using 1 by (subst String_nat.simps) (simp add: is_digit_digit)
  qed
qed

lemma String_nat_nonempty: "String_nat n \<noteq> []"
  by (subst String_nat.simps) simp

lemma String_nat_no_leading_zero: "0 < n \<Longrightarrow> hd (String_nat n) \<noteq> CHR ''0''"
proof (induction n rule: String_nat.induct)
  case (1 n)
  show ?case
  proof (cases "n < 10")
    case True
    then have "digit n \<noteq> CHR ''0''"
      using 1(2) by (auto simp add: digit_def char_of_eq_iff take_bit_eq_mod)
    then show ?thesis using True by (subst String_nat.simps) simp
  next
    case False
    then have "0 < n div 10" by simp
    then have "hd (String_nat (n div 10)) \<noteq> CHR ''0''" using 1(1) False by simp
    then show ?thesis using False String_nat_nonempty [of "n div 10"]
      by (subst String_nat.simps) simp
  qed
qed

subsection \<open>The code space of \<open>generateOtp\<close>\<close>

lemma randomInt_otp: "randomInt 100000 999999 x = int (100000 + x mod 899999)"
  by (simp add: randomInt_def zmod_int)

lemma generateOtp_String_nat: "generateOtp x = String_nat (100000 + x mod 899999)"
  unfolding generateOtp_def randomInt_otp String_int_def by (simp only: nat_int) simp

lemma parse_nat_generateOtp: "parse_nat (generateOtp x) = 100000 + x mod 899999"
  by (simp add: generateOtp_String_nat parse_nat_String_nat)

lemma parse_nat_999999: "parse_nat ''999999'' = 999999"
  by (simp add: parse_nat_def digit_val_def)

lemma generateOtp_least: "generateOtp 0 = ''100000''"
  by (simp add: generateOtp_String_nat String_nat.simps digit_def char_of_eq_iff take_bit_eq_mod)

lemma generateOtp_greatest: "generateOtp 899998 = ''999998''"
  by (simp add: generateOtp_String_nat String_nat.simps digit_def char_of_eq_iff take_bit_eq_mod)

lemma generateOtp_wraps: "generateOtp 899999 = ''100000''"
  by (simp add: generateOtp_String_nat String_nat.simps digit_def char_of_eq_iff take_bit_eq_mod)

text \<open>
  Claim C5. Every code that \<open>generateOtp\<close> produces is a string of exactly six decimal
  digits without a leading zero, and the number it shows lies between 100000 and
  999998: the upper bound of \<^verbatim>\<open>randomInt(100000, 999999)\<close> is exclusive, so no draw
  produces the code 999999, which the claim counts among the attainable codes. The
  least code 100000 and the greatest code 999998 are attained (\<open>generateOtp_least\<close>,
  \<open>generateOtp_greatest\<close>).
\<close>

theorem generateOtp_code_space:
  "length (generateOtp x) = 6
   \<and> list_all is_digit (generateOtp x)
   \<and> hd (generateOtp x) \<noteq> CHR ''0''
   \<and> 100000 \<le> parse_nat (generateOtp x)
   \<and> parse_nat (generateOtp x) \<le> 999998
   \<and> generateOtp x \<noteq> ''999999''"
proof -
  let ?n = "100000 + x mod 899999"
  have bound: "x mod 899999 < 899999" by simp
  have lo: "10 ^ 5 \<le> ?n" by simp
  have hi: "?n < 10 ^ Suc 5" using bound by simp
  have len: "length (generateOtp x) = 6"
    using String_nat_length [OF lo hi] by (simp add: generateOtp_String_nat)
  have dig: "list_all is_digit (generateOtp x)"
    by (simp add: generateOtp_String_nat String_nat_digits)
  have lead: "hd (generateOtp x) \<noteq> CHR ''0''"
    using String_nat_no_leading_zero [of ?n] by (simp add: generateOtp_String_nat)
  have val: "parse_nat (generateOtp x) = ?n" by (rule parse_nat_generateOtp)
  have never: "generateOtp x \<noteq> ''999999''"
  proof
    assume "generateOtp x = ''999999''"
    then have "parse_nat (generateOtp x) = 999999" by (simp only: parse_nat_999999)
    then show False using val bound by simp
  qed
  show ?thesis using len dig lead val bound never by simp
qed

subsection \<open>Verifying a one-time passcode\<close>

lemma find_filter_not: "find P (filter (\<lambda>r. \<not> P r) xs) = None"
  by (induction xs) auto

lemma findOneBy_after_delete:
  "otpRepo_findOneBy (otpRepo_delete otps email code) email code = None"
  unfolding otpRepo_findOneBy_def otpRepo_delete_def by (rule find_filter_not)

lemma verifyOtp_absent:
  "otpRepo_findOneBy otps email code = None \<Longrightarrow> verifyOtp otps now email code = (False, otps)"
  by (simp add: verifyOtp_def)

lemma verifyOtp_found:
  "otpRepo_findOneBy otps email code = Some r \<Longrightarrow>
   verifyOtp otps now email code = (\<not> expiresAt r < now, otpRepo_delete otps email code)"
  by (simp add: verifyOtp_def)

text \<open>
  Claim C1. When \<open>verifyOtp\<close> returns true, the table it leaves is the old one without
  the rows for this email and code, a lookup of the pair in it finds nothing, and a
  second \<open>verifyOtp\<close> with the same email and code on that table, at any time \<open>now'\<close>,
  returns false and changes nothing.
\<close>

theorem verifyOtp_one_time_use:
  assumes "verifyOtp otps now email code = (True, otps')"
  shows "otps' = otpRepo_delete otps email code
       \<and> otpRepo_findOneBy otps' email code = None
       \<and> verifyOtp otps' now' email code = (False, otps')"
proof -
  obtain r where r: "otpRepo_findOneBy otps email code = Some r"
    using assms by (cases "otpRepo_findOneBy otps email code") (auto simp: verifyOtp_absent)
  have del: "otps' = otpRepo_delete otps email code"
    using assms verifyOtp_found [OF r, of now] by simp
  have gone: "otpRepo_findOneBy otps' email code = None"
    unfolding del by (rule findOneBy_after_delete)
  show ?thesis using del gone verifyOtp_absent [OF gone] by simp
qed

theorem verifyOtp_one_time_use_witness:
  "verifyOtp [\<lparr>otp_email = ''a@x.com'', otp_code = ''123456'', expiresAt = 300000\<rparr>] 1000
       ''a@x.com'' ''123456'' = (True, [])
   \<and> verifyOtp [] 2000 ''a@x.com'' ''123456'' = (False, [])"
  using verifyOtp_one_time_use
    [of "[\<lparr>otp_email = ''a@x.com'', otp_code = ''123456'', expiresAt = 300000\<rparr>]" 1000
        "''a@x.com''" "''123456''" "[]" 2000]
  by (simp add: verifyOtp_def otpRepo_findOneBy_def otpRepo_delete_def)

text \<open>
  Claim C3, as stated, fails at the boundary: the code takes a record for expired when
  \<^verbatim>\<open>expiresAt.getTime() < Date.now()\<close>, so a verification at exactly
  \<open>now = expiresAt\<close> finds the record not expired and returns true.
\<close>

theorem verifyOtp_boundary_counterexample:
  "otpRepo_findOneBy [\<lparr>otp_email = ''a@x.com'', otp_code = ''123456'', expiresAt = 1000\<rparr>]
       ''a@x.com'' ''123456''
     = Some \<lparr>otp_email = ''a@x.com'', otp_code = ''123456'', expiresAt = 1000\<rparr>
   \<and> (1000::int) \<ge> expiresAt \<lparr>otp_email = ''a@x.com'', otp_code = ''123456'', expiresAt = 1000\<rparr>
   \<and> fst (verifyOtp [\<lparr>otp_email = ''a@x.com'', otp_code = ''123456'', expiresAt = 1000\<rparr>] 1000
            ''a@x.com'' ''123456'') = True"
  by (simp add: verifyOtp_def otpRepo_findOneBy_def otpRepo_delete_def)

text \<open>
  Claim C3, amended. Let \<open>r\<close> be the record the lookup returns for the email and the
  code. If the current time is greater than \<open>expiresAt r\<close>, \<open>verifyOtp\<close> deletes the
  rows for the pair and returns false; at \<open>now \<le> expiresAt r\<close>, the boundary
  included, it deletes them and returns true. Either way the pair is not found
  afterwards, and a later \<open>verifyOtp\<close> of it returns false.
\<close>

theorem verifyOtp_expiry:
  assumes "otpRepo_findOneBy otps email code = Some r"
  shows "(expiresAt r < now \<longrightarrow>
            verifyOtp otps now email code = (False, otpRepo_delete otps email code))
       \<and> (now \<le> expiresAt r \<longrightarrow>
            verifyOtp otps now email code = (True, otpRepo_delete otps email code))
       \<and> otpRepo_findOneBy (otpRepo_delete otps email code) email code = None
       \<and> verifyOtp (otpRepo_delete otps email code) now' email code
           = (False, otpRepo_delete otps email code)"
  using verifyOtp_found [OF assms, of now] findOneBy_after_delete [of otps email code]
    verifyOtp_absent [OF findOneBy_after_delete, of otps email code now']
  by auto

theorem verifyOtp_expiry_witness:
  "verifyOtp [\<lparr>otp_email = ''a@x.com'', otp_code = ''123456'', expiresAt = 1000\<rparr>] 1001
       ''a@x.com'' ''123456'' = (False, [])
   \<and> verifyOtp [] 1001 ''a@x.com'' ''123456'' = (False, [])"
  using verifyOtp_expiry
    [of "[\<lparr>otp_email = ''a@x.com'', otp_code = ''123456'', expiresAt = 1000\<rparr>]"
        "''a@x.com''" "''123456''"
        "\<lparr>otp_email = ''a@x.com'', otp_code = ''123456'', expiresAt = 1000\<rparr>" 1001 1001]
  by (simp add: otpRepo_findOneBy_def otpRepo_delete_def)

subsection \<open>Requesting a passcode and validating credentials\<close>

lemma reuestOtp_try_absent:
  "usersService_findOne users email = None \<Longrightarrow>
   reuestOtp_try sendOtpEmail x now users otps email
     = (Inl (ConflictException ''invalid user does not exist''), otps)"
  by (simp add: reuestOtp_try_def)

lemma reuestOtp_rethrows_HttpException:
  "reuestOtp_try sendOtpEmail x now users otps email = (Inl e, otps') \<Longrightarrow>
   instanceof_HttpException e \<Longrightarrow>
   reuestOtp sendOtpEmail x now users otps email = (Inl e, otps')"
  by (simp add: reuestOtp_def)

lemma validateUser_absent:
  "usersService_findOne users email = None \<Longrightarrow>
   validateUser compare users email password = Inl (UnauthorizedException ''Invalid credentials'')"
  by (simp add: validateUser_def)

lemma validateUser_present:
  "usersService_findOne users email = Some u \<Longrightarrow>
   validateUser compare users email password
     = (if compare password (user_password u) then Inr u
        else Inl (UnauthorizedException ''Invalid credentials''))"
  by (simp add: validateUser_def)

text \<open>
  Claim C6, as stated, fails on the kind of the failure: for an email with no identity
  in the store \<open>reuestOtp\<close> throws a \<^verbatim>\<open>ConflictException\<close>, status 409, the kind
  the spec keeps for an email that is already registered, and not a not-found kind
  (status 404).
\<close>

theorem reuestOtp_kind_counterexample:
  "usersService_findOne
      [\<lparr>user_id = ''1'', user_email = ''a@x.com'', user_password = ''h'',
        walletAddress = None, walletNonce = ''uuid-1''\<rparr>] ''b@x.com'' = None
   \<and> fst (reuestOtp (\<lambda>e c. None) 0 1000
      [\<lparr>user_id = ''1'', user_email = ''a@x.com'', user_password = ''h'',
        walletAddress = None, walletNonce = ''uuid-1''\<rparr>] [] ''b@x.com'')
     = Inl (ConflictException ''invalid user does not exist'')
   \<and> getStatus (ConflictException ''invalid user does not exist'') = Some 409
   \<and> getStatus (ConflictException ''invalid user does not exist'') \<noteq> Some 404"
  by (simp add: reuestOtp_def reuestOtp_try_def usersService_findOne_def)

text \<open>
  Claim C6, amended. For an email with no identity in the store, \<open>reuestOtp\<close> fails
  with the exception the \<^verbatim>\<open>try\<close> block throws where the absence is detected,
  \<^verbatim>\<open>ConflictException('invalid user does not exist')\<close>, of the Conflict kind
  (status 409), and writes no OTP row. The \<^verbatim>\<open>catch\<close> passes it on unchanged: the
  method's result is the result of the \<^verbatim>\<open>try\<close> block, an \<^verbatim>\<open>HttpException\<close>
  with the status it was thrown with, and it is not an
  \<^verbatim>\<open>InternalServerErrorException\<close>, whatever the mailer would do.
\<close>

theorem reuestOtp_user_not_found_propagates:
  assumes "usersService_findOne users email = None"
  shows "reuestOtp_try sendOtpEmail x now users otps email
           = (Inl (ConflictException ''invalid user does not exist''), otps)
       \<and> reuestOtp sendOtpEmail x now users otps email
           = reuestOtp_try sendOtpEmail x now users otps email
       \<and> (\<exists>e. fst (reuestOtp sendOtpEmail x now users otps email) = Inl e
              \<and> instanceof_HttpException e \<and> getStatus e = Some 409)
       \<and> (\<forall>m. fst (reuestOtp sendOtpEmail x now users otps email)
                 \<noteq> Inl (InternalServerErrorException m))"
  using reuestOtp_try_absent [OF assms, of sendOtpEmail x now otps]
    reuestOtp_rethrows_HttpException
      [of sendOtpEmail x now users otps email "ConflictException ''invalid user does not exist''" otps]
  by simp

theorem reuestOtp_user_not_found_propagates_witness:
  "reuestOtp (\<lambda>e c. Some (Error ''smtp down'')) 7 1000
      [\<lparr>user_id = ''1'', user_email = ''a@x.com'', user_password = ''h'',
        walletAddress = None, walletNonce = ''uuid-1''\<rparr>] [] ''b@x.com''
     = (Inl (ConflictException ''invalid user does not exist''), [])"
  using reuestOtp_user_not_found_propagates
    [of "[\<lparr>user_id = ''1'', user_email = ''a@x.com'', user_password = ''h'',
        walletAddress = None, walletNonce = ''uuid-1''\<rparr>]" "''b@x.com''"
        "\<lambda>e c. Some (Error ''smtp down'')" 7 1000 "[]"]
  by (simp add: usersService_findOne_def)

text \<open>
  Claim C4, as stated, fails for \<open>reuestOtp\<close>: for an email that is not in the store
  it fails with \<^verbatim>\<open>ConflictException('invalid user does not exist')\<close>, for an email
  that is in the store (and a mailer that works) it succeeds, so its outcome tells the
  caller whether the email exists.
\<close>

theorem reuestOtp_discloses_counterexample:
  "usersService_findOne
      [\<lparr>user_id = ''1'', user_email = ''a@x.com'', user_password = ''h'',
        walletAddress = None, walletNonce = ''uuid-1''\<rparr>] ''b@x.com'' = None
   \<and> usersService_findOne
      [\<lparr>user_id = ''1'', user_email = ''a@x.com'', user_password = ''h'',
        walletAddress = None, walletNonce = ''uuid-1''\<rparr>] ''a@x.com'' \<noteq> None
   \<and> fst (reuestOtp (\<lambda>e c. None) 0 1000
      [\<lparr>user_id = ''1'', user_email = ''a@x.com'', user_password = ''h'',
        walletAddress = None, walletNonce = ''uuid-1''\<rparr>] [] ''b@x.com'')
     = Inl (ConflictException ''invalid user does not exist'')
   \<and> fst (reuestOtp (\<lambda>e c. None) 0 1000
      [\<lparr>user_id = ''1'', user_email = ''a@x.com'', user_password = ''h'',
        walletAddress = None, walletNonce = ''uuid-1''\<rparr>] [] ''a@x.com'')
     = Inr ()"
  by (simp add: reuestOtp_def reuestOtp_try_def usersService_findOne_def Let_def)

text \<open>
  Claim C4, amended. \<open>validateUser\<close> fails for an email that is not in the store with
  the same exception, \<^verbatim>\<open>UnauthorizedException('Invalid credentials')\<close>, as for an
  email that is in the store with a wrong password, so its failure does not tell whether
  the email exists. \<open>reuestOtp\<close> for an email that is not in the store fails with
  \<^verbatim>\<open>ConflictException('invalid user does not exist')\<close>.
\<close>

theorem validateUser_same_failure:
  assumes "usersService_findOne users absent = None"
    and "usersService_findOne users present = Some u"
    and "\<not> compare password (user_password u)"
  shows "validateUser compare users absent password'
           = validateUser compare users present password
       \<and> validateUser compare users absent password'
           = Inl (UnauthorizedException ''Invalid credentials'')
       \<and> fst (reuestOtp sendOtpEmail x now users otps absent)
           = Inl (ConflictException ''invalid user does not exist'')"
  using validateUser_absent [OF assms(1), of compare password']
    validateUser_present [OF assms(2), of compare password] assms(3)
    reuestOtp_try_absent [OF assms(1), of sendOtpEmail x now otps]
  by (simp add: reuestOtp_def)

theorem validateUser_same_failure_witness:
  "validateUser (\<lambda>p h. h = ''hash:'' @ p)
      [\<lparr>user_id = ''1'', user_email = ''a@x.com'', user_password = ''hash:secret'',
        walletAddress = None, walletNonce = ''uuid-1''\<rparr>] ''b@x.com'' ''secret''
     = validateUser (\<lambda>p h. h = ''hash:'' @ p)
      [\<lparr>user_id = ''1'', user_email = ''a@x.com'', user_password = ''hash:secret'',
        walletAddress = None, walletNonce = ''uuid-1''\<rparr>] ''a@x.com'' ''guess''
   \<and> fst (reuestOtp (\<lambda>e c. None) 0 1000
      [\<lparr>user_id = ''1'', user_email = ''a@x.com'', user_password = ''hash:secret'',
        walletAddress = None, walletNonce = ''uuid-1''\<rparr>] [] ''b@x.com'')
     = Inl (ConflictException ''invalid user does not exist'')"
  using validateUser_same_failure
    [of "[\<lparr>user_id = ''1'', user_email = ''a@x.com'', user_password = ''hash:secret'',
        walletAddress = None, walletNonce = ''uuid-1''\<rparr>]" "''b@x.com''" "''a@x.com''"
        "\<lparr>user_id = ''1'', user_email = ''a@x.com'', user_password = ''hash:secret'',
        walletAddress = None, walletNonce = ''uuid-1''\<rparr>"
        "\<lambda>p h. h = ''hash:'' @ p" "''guess''" "''secret''" "\<lambda>e c. None" 0 1000 "[]"]
  by (simp add: usersService_findOne_def)

text \<open>
  Claim C8. \<open>validateUser\<close> returns the identity \<open>u\<close> exactly when the store holds
  \<open>u\<close> for the email and the hasher accepts the password against the stored hash of
  \<open>u\<close>; when no identity is found for the email with a matching hash, it fails with
  \<^verbatim>\<open>UnauthorizedException('Invalid credentials')\<close> and with nothing else.
\<close>

theorem validateUser_iff:
  "(validateUser compare users email password = Inr u
      \<longleftrightarrow> usersService_findOne users email = Some u \<and> compare password (user_password u))
   \<and> ((\<nexists>v. usersService_findOne users email = Some v \<and> compare password (user_password v))
      \<longrightarrow> validateUser compare users email password
            = Inl (UnauthorizedException ''Invalid credentials''))"
  by (cases "usersService_findOne users email") (auto simp add: validateUser_def)

theorem validateUser_iff_witness:
  "validateUser (\<lambda>p h. h = ''hash:'' @ p)
      [\<lparr>user_id = ''1'', user_email = ''a@x.com'', user_password = ''hash:secret'',
        walletAddress = None, walletNonce = ''uuid-1''\<rparr>] ''a@x.com'' ''secret''
     = Inr \<lparr>user_id = ''1'', user_email = ''a@x.com'', user_password = ''hash:secret'',
        walletAddress = None, walletNonce = ''uuid-1''\<rparr>
   \<and> validateUser (\<lambda>p h. h = ''hash:'' @ p)
      [\<lparr>user_id = ''1'', user_email = ''a@x.com'', user_password = ''hash:secret'',
        walletAddress = None, walletNonce = ''uuid-1''\<rparr>] ''a@x.com'' ''guess''
     = Inl (UnauthorizedException ''Invalid credentials'')"
  using validateUser_iff
    [of "\<lambda>p h. h = ''hash:'' @ p"
        "[\<lparr>user_id = ''1'', user_email = ''a@x.com'', user_password = ''hash:secret'',
        walletAddress = None, walletNonce = ''uuid-1''\<rparr>]" "''a@x.com''" "''secret''"
        "\<lparr>user_id = ''1'', user_email = ''a@x.com'', user_password = ''hash:secret'',
        walletAddress = None, walletNonce = ''uuid-1''\<rparr>"]
    validateUser_iff
    [of "\<lambda>p h. h = ''hash:'' @ p"
        "[\<lparr>user_id = ''1'', user_email = ''a@x.com'', user_password = ''hash:secret'',
        walletAddress = None, walletNonce = ''uuid-1''\<rparr>]" "''a@x.com''" "''guess''"]
  by (simp add: usersService_findOne_def)

subsection \<open>Linking a wallet\<close>

lemma find_Some_holds: "find P xs = Some x \<Longrightarrow> P x"
  by (induction xs) (auto split: if_splits)

lemma find_map_replace:
  "find (\<lambda>x. user_id x = k) xs = Some u \<Longrightarrow> user_id v = k \<Longrightarrow>
   find (\<lambda>x. user_id x = k) (map (\<lambda>x. if user_id x = k then v else x) xs) = Some v"
  by (induction xs) (auto split: if_splits)

lemma userRepo_findOne_save:
  assumes "userRepo_findOne users k = Some u" and "user_id v = k"
  shows "userRepo_findOne (userRepo_save users v) k = Some v"
  using assms find_map_replace [of k users u v]
  by (simp add: userRepo_save_def userRepo_findOne_def)

lemma challenge_inj: "challenge a = challenge b \<longleftrightarrow> a = b"
  by (simp add: challenge_def)

lemma linkWallet_no_user:
  "userRepo_findOne users (String_int userId) = None \<Longrightarrow>
   linkWallet vm uuid users userId address signature
     = (Inl (UnauthorizedException ''User not found''), users)"
  by (simp add: linkWallet_def)

lemma linkWallet_bad_signature:
  "userRepo_findOne users (String_int userId) = Some u \<Longrightarrow>
   vm (challenge (walletNonce u)) signature = None \<Longrightarrow>
   linkWallet vm uuid users userId address signature
     = (Inl (UnauthorizedException ''Invalid signature''), users)"
  by (simp add: linkWallet_def)

lemma linkWallet_mismatch:
  "userRepo_findOne users (String_int userId) = Some u \<Longrightarrow>
   vm (challenge (walletNonce u)) signature = Some a \<Longrightarrow>
   toLowerCase a \<noteq> toLowerCase address \<Longrightarrow>
   linkWallet vm uuid users userId address signature
     = (Inl (UnauthorizedException ''Signature verification failed''), users)"
  by (simp add: linkWallet_def)

lemma linkWallet_success:
  "userRepo_findOne users (String_int userId) = Some u \<Longrightarrow>
   vm (challenge (walletNonce u)) signature = Some a \<Longrightarrow>
   toLowerCase a = toLowerCase address \<Longrightarrow>
   linkWallet vm uuid users userId address signature
     = (Inr (u\<lparr>walletAddress := Some address, walletNonce := uuid\<rparr>),
        userRepo_save users (u\<lparr>walletAddress := Some address, walletNonce := uuid\<rparr>))"
  by (simp add: linkWallet_def Let_def)

lemma linkWallet_success_recovered:
  assumes "linkWallet vm uuid users userId address signature = (Inr u', users')"
    and "userRepo_findOne users (String_int userId) = Some u"
  shows "\<exists>a. vm (challenge (walletNonce u)) signature = Some a
             \<and> toLowerCase a = toLowerCase address"
  using assms by (auto simp add: linkWallet_def Let_def split: option.splits if_splits)

lemma String_int_1: "String_int 1 = ''1''"
  by (simp add: String_int_def String_nat.simps digit_def char_of_eq_iff take_bit_eq_mod)

lemma toLowerCase_0xABC: "toLowerCase ''0xABC'' = ''0xabc''"
  by (simp add: toLowerCase_def lower_char_def char_of_eq_iff take_bit_eq_mod)

lemma toLowerCase_0xabc: "toLowerCase ''0xabc'' = ''0xabc''"
  by (simp add: toLowerCase_def lower_char_def)

lemma toLowerCase_0xdef: "toLowerCase ''0xdef'' = ''0xdef''"
  by (simp add: toLowerCase_def lower_char_def)

text \<open>
  Claim C10. A \<open>linkWallet\<close> call that fails leaves the user table exactly as it was,
  so the stored identity, its wallet address and its nonce are unchanged; the failure
  is one of the three the method throws (user not found, invalid signature, recovered
  address not the claimed one).
\<close>

theorem linkWallet_failure_writes_nothing:
  assumes "linkWallet vm uuid users userId address signature = (Inl e, users')"
  shows "users' = users
       \<and> userRepo_findOne users' (String_int userId) = userRepo_findOne users (String_int userId)
       \<and> (e = UnauthorizedException ''User not found''
          \<or> e = UnauthorizedException ''Invalid signature''
          \<or> e = UnauthorizedException ''Signature verification failed'')"
  using assms by (auto simp add: linkWallet_def Let_def split: option.splits if_splits)

theorem linkWallet_failure_writes_nothing_witness:
  "linkWallet (\<lambda>m s. if s = m then Some ''0xABC'' else None) ''uuid-2''
      [\<lparr>user_id = ''1'', user_email = ''a@x.com'', user_password = ''h'',
        walletAddress = None, walletNonce = ''uuid-1''\<rparr>]
      1 ''0xdef'' ''Link wallet with nonce: uuid-1''
    = (Inl (UnauthorizedException ''Signature verification failed''),
       [\<lparr>user_id = ''1'', user_email = ''a@x.com'', user_password = ''h'',
         walletAddress = None, walletNonce = ''uuid-1''\<rparr>])"
proof -
  let ?vm = "\<lambda>m s :: string. if s = m then Some ''0xABC'' else None"
  let ?users = "[\<lparr>user_id = ''1'', user_email = ''a@x.com'', user_password = ''h'',
        walletAddress = None, walletNonce = ''uuid-1''\<rparr>]"
  have run: "linkWallet ?vm ''uuid-2'' ?users 1 ''0xdef'' ''Link wallet with nonce: uuid-1''
    = (Inl (UnauthorizedException ''Signature verification failed''), ?users)"
    by (simp add: linkWallet_def userRepo_findOne_def String_int_1 challenge_def
        toLowerCase_0xABC toLowerCase_0xabc toLowerCase_0xdef Let_def)
  show ?thesis using linkWallet_failure_writes_nothing [OF run] run by simp
qed

text \<open>
  Claim C2, as stated, fails for a call that reaches signature recovery and then fails
  on the address comparison: the exception is thrown before the nonce is rotated, and
  the stored nonce is still the one the challenge was built from.
\<close>

theorem linkWallet_mismatch_counterexample:
  "(\<lambda>m s. if s = m then Some ''0xABC'' else None) (challenge ''uuid-1'')
      ''Link wallet with nonce: uuid-1'' = Some ''0xABC''
   \<and> fst (linkWallet (\<lambda>m s. if s = m then Some ''0xABC'' else None) ''uuid-2''
      [\<lparr>user_id = ''1'', user_email = ''a@x.com'', user_password = ''h'',
        walletAddress = None, walletNonce = ''uuid-1''\<rparr>]
      1 ''0xdef'' ''Link wallet with nonce: uuid-1'')
     = Inl (UnauthorizedException ''Signature verification failed'')
   \<and> map_option walletNonce (userRepo_findOne (snd (linkWallet (\<lambda>m s. if s = m then Some ''0xABC'' else None) ''uuid-2''
      [\<lparr>user_id = ''1'', user_email = ''a@x.com'', user_password = ''h'',
        walletAddress = None, walletNonce = ''uuid-1''\<rparr>]
      1 ''0xdef'' ''Link wallet with nonce: uuid-1'')) ''1'') = Some ''uuid-1''"
  by (simp add: linkWallet_def userRepo_findOne_def String_int_1 challenge_def
        toLowerCase_0xABC toLowerCase_0xabc toLowerCase_0xdef Let_def)

text \<open>
  Claim C2, amended. For every \<open>linkWallet\<close> call that succeeds, there is a stored
  identity \<open>u\<close> whose challenge the signature recovers to the claimed address, and the
  identity stored afterwards is \<open>u\<close> with the claimed address and with the value
  \<open>uuid\<close> that \<^verbatim>\<open>crypto.randomUUID()\<close> returned as its nonce; the nonce differs from
  the one consumed exactly when \<open>uuid\<close> does. A replay of the same address and
  signature is checked against the challenge of the new nonce: it fails with an
  \<open>UnauthorizedException\<close> and writes nothing exactly when the signature does not
  recover to the claimed address for that challenge. A call that fails on the address
  comparison leaves the table, and so the stored nonce, as it was.
\<close>

theorem linkWallet_rotates_nonce_on_success:
  "(linkWallet vm uuid users userId address signature = (Inr u', users') \<longrightarrow>
      (\<exists>u a. userRepo_findOne users (String_int userId) = Some u
            \<and> vm (challenge (walletNonce u)) signature = Some a
            \<and> toLowerCase a = toLowerCase address
            \<and> u' = u\<lparr>walletAddress := Some address, walletNonce := uuid\<rparr>
            \<and> (walletNonce u' \<noteq> walletNonce u) = (uuid \<noteq> walletNonce u))
      \<and> userRepo_findOne users' (String_int userId) = Some u'
      \<and> walletAddress u' = Some address
      \<and> walletNonce u' = uuid
      \<and> ((\<exists>m. linkWallet vm uuid2 users' userId address signature
                 = (Inl (UnauthorizedException m), users'))
          = (\<forall>a'. vm (challenge uuid) signature = Some a'
                 \<longrightarrow> toLowerCase a' \<noteq> toLowerCase address)))
   \<and> (userRepo_findOne users (String_int userId) = Some v
        \<and> vm (challenge (walletNonce v)) signature = Some b
        \<and> toLowerCase b \<noteq> toLowerCase address \<longrightarrow>
      linkWallet vm uuid users userId address signature
        = (Inl (UnauthorizedException ''Signature verification failed''), users))"
proof (intro conjI impI)
  assume ok: "linkWallet vm uuid users userId address signature = (Inr u', users')"
  obtain u where found: "userRepo_findOne users (String_int userId) = Some u"
    using ok by (cases "userRepo_findOne users (String_int userId)") (auto simp: linkWallet_no_user)
  obtain a where success: "vm (challenge (walletNonce u)) signature = Some a"
      "toLowerCase a = toLowerCase address"
    using linkWallet_success_recovered [OF ok found] by blast
  let ?w = "u\<lparr>walletAddress := Some address, walletNonce := uuid\<rparr>"
  have res: "u' = ?w" "users' = userRepo_save users ?w"
    using ok linkWallet_success [where vm = vm and uuid = uuid, OF found success] by auto
  have idu: "user_id u = String_int userId"
    using find_Some_holds [of "\<lambda>x. user_id x = String_int userId" users u] found
    by (simp add: userRepo_findOne_def)
  show stored: "userRepo_findOne users' (String_int userId) = Some u'"
    unfolding res using userRepo_findOne_save [OF found, of ?w] idu by simp
  show "walletAddress u' = Some address" using res by simp
  show nonce: "walletNonce u' = uuid" using res by simp
  show "\<exists>u a. userRepo_findOne users (String_int userId) = Some u
            \<and> vm (challenge (walletNonce u)) signature = Some a
            \<and> toLowerCase a = toLowerCase address
            \<and> u' = u\<lparr>walletAddress := Some address, walletNonce := uuid\<rparr>
            \<and> (walletNonce u' \<noteq> walletNonce u) = (uuid \<noteq> walletNonce u)"
    using found success res(1) nonce by auto
  show "(\<exists>m. linkWallet vm uuid2 users' userId address signature
                 = (Inl (UnauthorizedException m), users'))
          = (\<forall>a'. vm (challenge uuid) signature = Some a'
                 \<longrightarrow> toLowerCase a' \<noteq> toLowerCase address)"
  proof (cases "vm (challenge (walletNonce u')) signature")
    case None
    then show ?thesis
      using linkWallet_bad_signature
          [where vm = vm and uuid = uuid2 and address = address, OF stored None] nonce
      by auto
  next
    case (Some a')
    show ?thesis
    proof (cases "toLowerCase a' = toLowerCase address")
      case True
      then show ?thesis
        using linkWallet_success [where vm = vm and uuid = uuid2, OF stored Some True] Some nonce
        by auto
    next
      case False
      then show ?thesis
        using linkWallet_mismatch [where vm = vm and uuid = uuid2, OF stored Some False] Some nonce
        by auto
    qed
  qed
next
  assume "userRepo_findOne users (String_int userId) = Some v
        \<and> vm (challenge (walletNonce v)) signature = Some b
        \<and> toLowerCase b \<noteq> toLowerCase address"
  then show "linkWallet vm uuid users userId address signature
        = (Inl (UnauthorizedException ''Signature verification failed''), users)"
    using linkWallet_mismatch [where vm = vm and uuid = uuid, of users userId v signature b address]
    by simp
qed

lemma toLowerCase_0x123: "toLowerCase ''0x123'' = ''0x123''"
  by (simp add: toLowerCase_def lower_char_def)

theorem linkWallet_rotates_nonce_on_success_witness:
  "linkWallet (\<lambda>m s. if m = ''Link wallet with nonce: uuid-1'' then Some ''0xABC''
               else Some ''0x123'')
      ''uuid-2''
      [\<lparr>user_id = ''1'', user_email = ''a@x.com'', user_password = ''h'',
        walletAddress = None, walletNonce = ''uuid-1''\<rparr>]
      1 ''0xabc'' ''sig''
    = (Inr \<lparr>user_id = ''1'', user_email = ''a@x.com'', user_password = ''h'',
            walletAddress = Some ''0xabc'', walletNonce = ''uuid-2''\<rparr>,
       [\<lparr>user_id = ''1'', user_email = ''a@x.com'', user_password = ''h'',
         walletAddress = Some ''0xabc'', walletNonce = ''uuid-2''\<rparr>])
   \<and> (\<exists>m. linkWallet (\<lambda>m s. if m = ''Link wallet with nonce: uuid-1'' then Some ''0xABC''
               else Some ''0x123'')
      ''uuid-3''
      [\<lparr>user_id = ''1'', user_email = ''a@x.com'', user_password = ''h'',
        walletAddress = Some ''0xabc'', walletNonce = ''uuid-2''\<rparr>]
      1 ''0xabc'' ''sig''
    = (Inl (UnauthorizedException m),
       [\<lparr>user_id = ''1'', user_email = ''a@x.com'', user_password = ''h'',
         walletAddress = Some ''0xabc'', walletNonce = ''uuid-2''\<rparr>]))
   \<and> linkWallet (\<lambda>m s. if m = ''Link wallet with nonce: uuid-1'' then Some ''0xABC''
               else Some ''0x123'')
      ''uuid-3''
      [\<lparr>user_id = ''1'', user_email = ''a@x.com'', user_password = ''h'',
        walletAddress = Some ''0xabc'', walletNonce = ''uuid-2''\<rparr>]
      1 ''0xabc'' ''sig''
    = (Inl (UnauthorizedException ''Signature verification failed''),
       [\<lparr>user_id = ''1'', user_email = ''a@x.com'', user_password = ''h'',
         walletAddress = Some ''0xabc'', walletNonce = ''uuid-2''\<rparr>])
   \<and> linkWallet (\<lambda>m s. if m = ''Link wallet with nonce: uuid-1'' then Some ''0xABC''
               else Some ''0x123'')
      ''uuid-2''
      [\<lparr>user_id = ''1'', user_email = ''a@x.com'', user_password = ''h'',
        walletAddress = None, walletNonce = ''uuid-1''\<rparr>]
      1 ''0xdef'' ''sig''
    = (Inl (UnauthorizedException ''Signature verification failed''),
       [\<lparr>user_id = ''1'', user_email = ''a@x.com'', user_password = ''h'',
         walletAddress = None, walletNonce = ''uuid-1''\<rparr>])"
proof -
  let ?vm = "\<lambda>m s :: string.
     if m = ''Link wallet with nonce: uuid-1'' then Some ''0xABC'' else Some ''0x123''"
  let ?u = "\<lparr>user_id = ''1'', user_email = ''a@x.com'', user_password = ''h'',
        walletAddress = None, walletNonce = ''uuid-1''\<rparr>"
  let ?u' = "\<lparr>user_id = ''1'', user_email = ''a@x.com'', user_password = ''h'',
        walletAddress = Some ''0xabc'', walletNonce = ''uuid-2''\<rparr>"
  have ok: "linkWallet ?vm ''uuid-2'' [?u] 1 ''0xabc'' ''sig'' = (Inr ?u', [?u'])"
    by (simp add: linkWallet_def userRepo_findOne_def userRepo_save_def String_int_1
        challenge_def toLowerCase_0xABC toLowerCase_0xabc Let_def)
  have replay: "linkWallet ?vm ''uuid-3'' [?u'] 1 ''0xabc'' ''sig''
      = (Inl (UnauthorizedException ''Signature verification failed''), [?u'])"
    by (simp add: linkWallet_def userRepo_findOne_def String_int_1 challenge_def
        toLowerCase_0x123 toLowerCase_0xabc Let_def)
  have found: "userRepo_findOne [?u] (String_int 1) = Some ?u"
    by (simp add: userRepo_findOne_def String_int_1)
  have new: "\<forall>a'. ?vm (challenge ''uuid-2'') ''sig'' = Some a'
               \<longrightarrow> toLowerCase a' \<noteq> toLowerCase ''0xabc''"
    by (simp add: challenge_def toLowerCase_0x123 toLowerCase_0xabc)
  have old: "?vm (challenge (walletNonce ?u)) ''sig'' = Some ''0xABC''"
    by (simp add: challenge_def)
  have differ: "toLowerCase ''0xABC'' \<noteq> toLowerCase ''0xdef''"
    by (simp add: toLowerCase_0xABC toLowerCase_0xdef)
  show ?thesis
    using linkWallet_rotates_nonce_on_success
        [of ?vm "''uuid-2''" "[?u]" 1 "''0xabc''" "''sig''" ?u' "[?u']" "''uuid-3''" ?u "''0xABC''"]
      linkWallet_rotates_nonce_on_success
        [of ?vm "''uuid-2''" "[?u]" 1 "''0xdef''" "''sig''" ?u' "[?u']" "''uuid-3''" ?u "''0xABC''"]
      ok replay found new old differ
    by simp
qed

subsection \<open>Tokens\<close>

lemma accessToken_login:
  "accessToken (login secret now user)
     = Signed secret \<lparr>claim_email = user_email user, claim_sub = user_id user,
                       iat = now, exp = now + 15 * 60\<rparr>"
  by (simp add: login_def sign_def Let_def)

lemma refreshToken_login:
  "refreshToken_of (login secret now user)
     = Signed secret \<lparr>claim_email = user_email user, claim_sub = user_id user,
                       iat = now, exp = now + 7 * 24 * 60 * 60\<rparr>"
  by (simp add: login_def sign_def Let_def)

lemma verify_Signed:
  "verify secret t (Signed secret c) = (if exp c < t then Inl Expired else Inr c)"
  by (simp add: verify_def)

text \<open>
  Claim C7. Verifying the access token that \<open>login\<close> issued at time \<open>now\<close>, at a
  time \<open>t\<close> before its expiry, recovers claims whose \<open>sub\<close> is the identity's id and
  whose email is the identity's email; the access token expires 15 minutes and the
  refresh token 7 days after \<open>now\<close>, and verification at a time past the expiry fails
  with \<open>Expired\<close>.
\<close>

theorem login_token_round_trip:
  "(t < now + 15 * 60 \<longrightarrow>
      (\<exists>c. verify secret t (accessToken (login secret now user)) = Inr c
           \<and> claim_sub c = user_id user \<and> claim_email c = user_email user
           \<and> iat c = now \<and> exp c = now + 15 * 60))
   \<and> (now + 15 * 60 < t \<longrightarrow>
      verify secret t (accessToken (login secret now user)) = Inl Expired)
   \<and> (t < now + 7 * 24 * 60 * 60 \<longrightarrow>
      (\<exists>c. verify secret t (refreshToken_of (login secret now user)) = Inr c
           \<and> claim_sub c = user_id user \<and> claim_email c = user_email user
           \<and> iat c = now \<and> exp c = now + 7 * 24 * 60 * 60))
   \<and> (now + 7 * 24 * 60 * 60 < t \<longrightarrow>
      verify secret t (refreshToken_of (login secret now user)) = Inl Expired)"
  by (simp add: accessToken_login refreshToken_login verify_Signed)

theorem login_token_round_trip_witness:
  "(\<exists>c. verify ''k'' 1600 (accessToken (login ''k'' 1000
        \<lparr>user_id = ''1'', user_email = ''a@x.com'', user_password = ''h'',
          walletAddress = None, walletNonce = ''uuid-1''\<rparr>)) = Inr c
        \<and> claim_sub c = ''1'' \<and> claim_email c = ''a@x.com'')
   \<and> verify ''k'' 1901 (accessToken (login ''k'' 1000
        \<lparr>user_id = ''1'', user_email = ''a@x.com'', user_password = ''h'',
          walletAddress = None, walletNonce = ''uuid-1''\<rparr>)) = Inl Expired
   \<and> verify ''k'' 605801 (refreshToken_of (login ''k'' 1000
        \<lparr>user_id = ''1'', user_email = ''a@x.com'', user_password = ''h'',
          walletAddress = None, walletNonce = ''uuid-1''\<rparr>)) = Inl Expired"
  using login_token_round_trip
    [of 1600 1000 "''k''" "\<lparr>user_id = ''1'', user_email = ''a@x.com'', user_password = ''h'',
          walletAddress = None, walletNonce = ''uuid-1''\<rparr>"]
    login_token_round_trip
    [of 1901 1000 "''k''" "\<lparr>user_id = ''1'', user_email = ''a@x.com'', user_password = ''h'',
          walletAddress = None, walletNonce = ''uuid-1''\<rparr>"]
    login_token_round_trip
    [of 605801 1000 "''k''" "\<lparr>user_id = ''1'', user_email = ''a@x.com'', user_password = ''h'',
          walletAddress = None, walletNonce = ''uuid-1''\<rparr>"]
  by auto

text \<open>
  Claim C9. \<open>refreshToken\<close> verifies the token (signature and expiry): when
  verification fails, it fails with
  \<^verbatim>\<open>UnauthorizedException('Invalid or expired refresh token')\<close>. When verification
  gives claims \<open>c\<close>, it looks the identity up by the email in \<open>c\<close>, fails with the
  same exception when there is none, and otherwise returns a new access token
  (15 minutes) and a new refresh token (7 days) for the identity found. For a refresh
  token issued 8 days before the call it fails with that exception, so no token is
  issued.
\<close>

theorem refreshToken_flow:
  "(verify secret now t = Inl e \<longrightarrow>
      refreshToken secret now users t
        = Inl (UnauthorizedException ''Invalid or expired refresh token''))
   \<and> (verify secret now t = Inr c \<and> usersService_findOne users (claim_email c) = None \<longrightarrow>
      refreshToken secret now users t
        = Inl (UnauthorizedException ''Invalid or expired refresh token''))
   \<and> (verify secret now t = Inr c \<and> usersService_findOne users (claim_email c) = Some u \<longrightarrow>
      (\<exists>s. refreshToken secret now users t = Inr s
           \<and> accessToken s
               = sign secret now \<lparr>claim_email = user_email u, claim_sub = user_id u\<rparr> (Minutes 15)
           \<and> refreshToken_of s
               = sign secret now \<lparr>claim_email = user_email u, claim_sub = user_id u\<rparr> (Days 7)))
   \<and> refreshToken secret (issued + 8 * 24 * 60 * 60) users
        (refreshToken_of (login secret issued user))
        = Inl (UnauthorizedException ''Invalid or expired refresh token'')"
proof -
  have failed: "verify secret now t = Inl e \<longrightarrow>
      refreshToken secret now users t
        = Inl (UnauthorizedException ''Invalid or expired refresh token'')"
    by (simp add: refreshToken_def refreshToken_try_def)
  have deleted: "verify secret now t = Inr c \<and> usersService_findOne users (claim_email c) = None \<longrightarrow>
      refreshToken secret now users t
        = Inl (UnauthorizedException ''Invalid or expired refresh token'')"
    by (simp add: refreshToken_def refreshToken_try_def)
  have reissued: "verify secret now t = Inr c \<and> usersService_findOne users (claim_email c) = Some u \<longrightarrow>
      (\<exists>s. refreshToken secret now users t = Inr s
           \<and> accessToken s
               = sign secret now \<lparr>claim_email = user_email u, claim_sub = user_id u\<rparr> (Minutes 15)
           \<and> refreshToken_of s
               = sign secret now \<lparr>claim_email = user_email u, claim_sub = user_id u\<rparr> (Days 7))"
    by (simp add: refreshToken_def refreshToken_try_def login_def Let_def)
  have "verify secret (issued + 8 * 24 * 60 * 60) (refreshToken_of (login secret issued user))
          = Inl Expired"
    by (simp add: refreshToken_login verify_Signed)
  then have old: "refreshToken secret (issued + 8 * 24 * 60 * 60) users
        (refreshToken_of (login secret issued user))
        = Inl (UnauthorizedException ''Invalid or expired refresh token'')"
    by (simp add: refreshToken_def refreshToken_try_def)
  show ?thesis using failed deleted reissued old by blast
qed


theorem refreshToken_flow_witness:
  "(\<exists>s. refreshToken ''k'' 2000
      [\<lparr>user_id = ''1'', user_email = ''a@x.com'', user_password = ''h'',
        walletAddress = None, walletNonce = ''uuid-1''\<rparr>]
      (refreshToken_of (login ''k'' 1000
         \<lparr>user_id = ''1'', user_email = ''a@x.com'', user_password = ''h'',
           walletAddress = None, walletNonce = ''uuid-1''\<rparr>)) = Inr s
      \<and> accessToken s
          = sign ''k'' 2000 \<lparr>claim_email = ''a@x.com'', claim_sub = ''1''\<rparr> (Minutes 15)
      \<and> refreshToken_of s
          = sign ''k'' 2000 \<lparr>claim_email = ''a@x.com'', claim_sub = ''1''\<rparr> (Days 7))
   \<and> refreshToken ''k'' 2000 []
      (refreshToken_of (login ''k'' 1000
         \<lparr>user_id = ''1'', user_email = ''a@x.com'', user_password = ''h'',
           walletAddress = None, walletNonce = ''uuid-1''\<rparr>))
     = Inl (UnauthorizedException ''Invalid or expired refresh token'')
   \<and> refreshToken ''k'' 2000
      [\<lparr>user_id = ''1'', user_email = ''a@x.com'', user_password = ''h'',
        walletAddress = None, walletNonce = ''uuid-1''\<rparr>]
      (Garbage ''abc'')
     = Inl (UnauthorizedException ''Invalid or expired refresh token'')
   \<and> refreshToken ''k'' (1000 + 8 * 24 * 60 * 60)
      [\<lparr>user_id = ''1'', user_email = ''a@x.com'', user_password = ''h'',
        walletAddress = None, walletNonce = ''uuid-1''\<rparr>]
      (refreshToken_of (login ''k'' 1000
         \<lparr>user_id = ''1'', user_email = ''a@x.com'', user_password = ''h'',
           walletAddress = None, walletNonce = ''uuid-1''\<rparr>))
     = Inl (UnauthorizedException ''Invalid or expired refresh token'')"
proof -
  let ?u = "\<lparr>user_id = ''1'', user_email = ''a@x.com'', user_password = ''h'',
        walletAddress = None, walletNonce = ''uuid-1''\<rparr>"
  let ?c = "\<lparr>claim_email = ''a@x.com'', claim_sub = ''1'', iat = 1000,
        exp = 1000 + 7 * 24 * 60 * 60\<rparr>"
  have v: "verify ''k'' 2000 (refreshToken_of (login ''k'' 1000 ?u)) = Inr ?c"
    by (simp add: refreshToken_login verify_Signed)
  have g: "verify ''k'' 2000 (Garbage ''abc'') = Inl Malformed"
    by (simp add: verify_def)
  have f: "usersService_findOne [?u] (claim_email ?c) = Some ?u"
    by (simp add: usersService_findOne_def)
  have n: "usersService_findOne [] (claim_email ?c) = None"
    by (simp add: usersService_findOne_def)
  show ?thesis
    using refreshToken_flow
        [of "''k''" 2000 "refreshToken_of (login ''k'' 1000 ?u)" Malformed "[?u]" ?c ?u 1000 ?u]
      refreshToken_flow
        [of "''k''" 2000 "refreshToken_of (login ''k'' 1000 ?u)" Malformed "[]" ?c ?u 1000 ?u]
      refreshToken_flow
        [of "''k''" 2000 "Garbage ''abc''" Malformed "[?u]" ?c ?u 1000 ?u]
      v g f n
    by auto
qed

end
